theory Spec2Isabelle
  imports Complex_Main "HOL-Library.AList"
begin

section \<open>Python strings\<close>

text \<open>
  A Python \<open>str\<close> is a sequence of Unicode code points, so it is modelled as a list of
  code points. The price text of a listing carries the Euro sign (U+20AC), which is one
  code point of the Python string.
\<close>

type_synonym pystr = "nat list"

definition u :: "string \<Rightarrow> pystr" where
  \<comment> \<open>An ASCII literal of the source as a Python string.\<close>
  "u s = map of_char s"

definition euro :: pystr where
  "euro = [8364]"

definition py_isspace :: "nat \<Rightarrow> bool" where
  \<comment> \<open>The code points that \<open>str.strip()\<close> removes: those for which \<open>str.isspace\<close> holds.\<close>
  "py_isspace c \<longleftrightarrow>
     (9 \<le> c \<and> c \<le> 13) \<or> (28 \<le> c \<and> c \<le> 32) \<or> c = 133 \<or> c = 160 \<or> c = 5760 \<or>
     (8192 \<le> c \<and> c \<le> 8202) \<or> c = 8232 \<or> c = 8233 \<or> c = 8239 \<or> c = 8287 \<or> c = 12288"

definition py_strip :: "pystr \<Rightarrow> pystr" where
  "py_strip s = rev (dropWhile py_isspace (rev (dropWhile py_isspace s)))"

fun startswith :: "pystr \<Rightarrow> pystr \<Rightarrow> bool" where
  "startswith s [] = True"
| "startswith [] (p # ps) = False"
| "startswith (c # cs) (p # ps) = (c = p \<and> startswith cs ps)"

fun py_in :: "pystr \<Rightarrow> pystr \<Rightarrow> bool" where
  \<comment> \<open>\<open>sub in s\<close>\<close>
  "py_in sub [] = (sub = [])"
| "py_in sub (c # cs) = (startswith (c # cs) sub \<or> py_in sub cs)"

fun replace_from :: "pystr \<Rightarrow> pystr \<Rightarrow> pystr \<Rightarrow> pystr" where
  \<comment> \<open>Left to right, non-overlapping occurrences of a non-empty \<open>old\<close>.\<close>
  "replace_from old new [] = []"
| "replace_from old new (c # cs) =
     (if startswith (c # cs) old
      then new @ replace_from old new (drop (length old - 1) cs)
      else c # replace_from old new cs)"

definition py_replace :: "pystr \<Rightarrow> pystr \<Rightarrow> pystr \<Rightarrow> pystr" where
  \<comment> \<open>\<open>s.replace(old, new)\<close>; an empty \<open>old\<close> matches between all code points.\<close>
  "py_replace s old new =
     (if old = [] then new @ concat (map (\<lambda>c. c # new) s) else replace_from old new s)"

definition truthy :: "pystr option \<Rightarrow> bool" where
  \<comment> \<open>The truth value of an \<open>Optional[str]\<close>: \<open>None\<close> and \<open>\"\"\<close> are false.\<close>
  "truthy v = (case v of None \<Rightarrow> False | Some s \<Rightarrow> s \<noteq> [])"

fun split_from :: "pystr \<Rightarrow> pystr \<Rightarrow> pystr list" where
  \<comment> \<open>The words of the rest of the string, \<open>word\<close> being the word read so far.\<close>
  "split_from [] word = (if word = [] then [] else [word])"
| "split_from (c # cs) word =
     (if py_isspace c
      then (if word = [] then split_from cs [] else word # split_from cs [])
      else split_from cs (word @ [c]))"

definition py_split :: "pystr \<Rightarrow> pystr list" where
  \<comment> \<open>\<open>s.split()\<close>: the maximal runs of code points that are not whitespace.\<close>
  "py_split s = split_from s []"

fun split_sep_from :: "pystr \<Rightarrow> pystr \<Rightarrow> pystr \<Rightarrow> pystr list" where
  "split_sep_from sep [] piece = [piece]"
| "split_sep_from sep (c # cs) piece =
     (if startswith (c # cs) sep
      then piece # split_sep_from sep (drop (length sep - 1) cs) []
      else split_sep_from sep cs (piece @ [c]))"

definition py_split_sep :: "pystr \<Rightarrow> pystr \<Rightarrow> pystr list" where
  \<comment> \<open>\<open>s.split(sep)\<close> for a non-empty separator.\<close>
  "py_split_sep s sep = split_sep_from sep s []"

fun py_join :: "pystr \<Rightarrow> pystr list \<Rightarrow> pystr" where
  \<comment> \<open>\<open>sep.join(parts)\<close>\<close>
  "py_join sep [] = []"
| "py_join sep [x] = x"
| "py_join sep (x # y # ys) = x @ sep @ py_join sep (y # ys)"

fun sub_runs :: "(nat \<Rightarrow> bool) \<Rightarrow> nat \<Rightarrow> bool \<Rightarrow> pystr \<Rightarrow> pystr" where
  \<comment> \<open>\<open>re.sub\<close> of a pattern \<open>[...]+\<close> by one code point: each maximal run of code
      points of the class becomes \<open>r\<close>. The flag says that the run has begun.\<close>
  "sub_runs P r in_run [] = []"
| "sub_runs P r in_run (c # cs) =
     (if P c then (if in_run then sub_runs P r True cs else r # sub_runs P r True cs)
      else c # sub_runs P r False cs)"

fun str_nat :: "nat \<Rightarrow> pystr" where
  \<comment> \<open>\<open>str(n)\<close> for a natural number: its decimal digits.\<close>
  "str_nat n = (if n < 10 then [48 + n] else str_nat (n div 10) @ [48 + n mod 10])"

declare str_nat.simps [simp del]

definition str_int :: "int \<Rightarrow> pystr" where
  "str_int i = (if i < 0 then 45 # str_nat (nat (- i)) else str_nat (nat i))"

section \<open>Exceptions\<close>

text \<open>
  What the libraries below the scrapers raise (\<open>httpx\<close>, \<open>BeautifulSoup\<close>): the
  status error of \<open>raise_for_status\<close> with the status code and the reason phrase of its
  response, or any other subclass of \<open>Exception\<close> with its \<open>str()\<close>.
\<close>

datatype raised =
    HTTPStatusError nat pystr
  | Error pystr

text \<open>
  What the scrapers and the router raise. The detail of an \<open>HTTPException\<close> is a string
  or, after the retry loop, a dictionary with the message, the category, the severity and
  the recovery suggestions of a structured error.
\<close>

datatype detail =
    DetailText pystr
  | DetailError pystr pystr pystr "pystr list"

datatype exn =
    HTTPException nat detail
  | AttributeError pystr

section \<open>Documents\<close>

text \<open>
  A parsed document is seen through the calls the extraction helpers make: a tag has a
  list of classes, its other attributes and its contents (text and tags, in document
  order). The CSS engine behind \<open>select\<close> is not part of the repository: a document is
  given by what \<open>soup.select(selector)\<close> yields, a list of tags in document order or a
  raised exception.
\<close>

datatype tag = Tag (tag_classes: "pystr list") (tag_attrs: "(pystr \<times> pystr) list")
                   (tag_contents: "content list")
and content = Text pystr | Child tag

type_synonym soup = "string \<Rightarrow> raised + tag list"

fun get_text :: "tag \<Rightarrow> pystr"
and get_text_contents :: "content list \<Rightarrow> pystr" where
  \<comment> \<open>\<open>tag.get_text(strip=True)\<close>: the stripped strings below the tag, joined.\<close>
  "get_text (Tag cls attrs cs) = get_text_contents cs"
| "get_text_contents [] = []"
| "get_text_contents (Text s # cs) = py_strip s @ get_text_contents cs"
| "get_text_contents (Child t # cs) = get_text t @ get_text_contents cs"

fun find_class :: "pystr \<Rightarrow> content list \<Rightarrow> tag option" where
  \<comment> \<open>\<open>tag.find(class_=cls)\<close> over the contents of the tag: the first descendant in
      document order that has the class.\<close>
  "find_class cls [] = None"
| "find_class cls (Text s # cs) = find_class cls cs"
| "find_class cls (Child (Tag classes attrs contents) # cs) =
     (if cls \<in> set classes then Some (Tag classes attrs contents)
      else case find_class cls contents of
             Some d \<Rightarrow> Some d
           | None \<Rightarrow> find_class cls cs)"

definition select_one :: "soup \<Rightarrow> string \<Rightarrow> raised + tag option" where
  "select_one soup selector =
     (case soup selector of
        Inl e \<Rightarrow> Inl e
      | Inr [] \<Rightarrow> Inr None
      | Inr (t # ts) \<Rightarrow> Inr (Some t))"

section \<open>libs/websites/kleinanzeigen.py\<close>

definition get_element_content :: "soup \<Rightarrow> string \<Rightarrow> pystr option \<Rightarrow> raised + pystr option" where
  "get_element_content soup selector dflt =
     (case select_one soup selector of
        Inl e \<Rightarrow> Inl e
      | Inr None \<Rightarrow> Inr dflt
      | Inr (Some element) \<Rightarrow> Inr (Some (get_text element)))"

definition get_elements_content :: "soup \<Rightarrow> string \<Rightarrow> raised + pystr list" where
  "get_elements_content soup selector =
     (case soup selector of
        Inl e \<Rightarrow> Inl e
      | Inr elements \<Rightarrow> Inr (map get_text elements))"

definition get_image_sources :: "soup \<Rightarrow> string \<Rightarrow> raised + pystr list" where
  "get_image_sources soup selector =
     (case select_one soup selector of
        Inl e \<Rightarrow> Inl e
      | Inr None \<Rightarrow> Inr []
      | Inr (Some image_element) \<Rightarrow>
          (case map_of (tag_attrs image_element) (u ''src'') of
             None \<Rightarrow> Inr []
           | Some src \<Rightarrow> Inr ([] @ [src])))"

record price =
  amount :: pystr
  currency :: pystr
  negotiable :: bool

definition parse_price :: "pystr option \<Rightarrow> price" where
  "parse_price price_text =
     (case price_text of
        None \<Rightarrow> \<lparr>amount = u ''0'', currency = euro, negotiable = False\<rparr>
      | Some text \<Rightarrow>
          if text = [] then \<lparr>amount = u ''0'', currency = euro, negotiable = False\<rparr>
          else
            let price_text1 = py_strip text;
                negotiable = py_in (u ''VB'') price_text1;
                price_text2 = py_strip (py_replace price_text1 (u ''VB'') []);
                amount = py_strip (py_replace (py_replace (py_replace price_text2 euro [])
                                     (u ''.'') []) (u '','') (u ''.''))
            in \<lparr>amount = amount, currency = euro, negotiable = negotiable\<rparr>)"

record seller_info =
  seller_name :: "pystr option"
  seller_since :: "pystr option"
  seller_type :: pystr
  seller_badges :: "pystr list"

definition fill_seller_details :: "soup \<Rightarrow> seller_info \<Rightarrow> raised option \<times> seller_info" where
  \<comment> \<open>\<open>_get_seller_details_\<close> fills \<open>result\<close> in place: when a call raises, the
      entries written before it stay. The pair is the exception, if any, and \<open>result\<close>.\<close>
  "fill_seller_details soup result =
     (case get_element_content soup ''.userprofile-vip'' None of
        Inl e \<Rightarrow> (Some e, result)
      | Inr name \<Rightarrow>
          let result1 = result\<lparr>seller_name := name\<rparr> in
          (case select_one soup ''.userprofile-vip-details-text'' of
             Inl e \<Rightarrow> (Some e, result1)
           | Inr seller_type_element \<Rightarrow>
               let result2 =
                 (case seller_type_element of
                    None \<Rightarrow> result1
                  | Some element \<Rightarrow>
                      if py_in (u ''Gewerblicher'') (get_text element)
                      then result1\<lparr>seller_type := u ''business''\<rparr> else result1)
               in
               (case get_element_content soup
                       ''.userprofile-vip-details-text:has-text('Aktiv seit')'' None of
                  Inl e \<Rightarrow> (Some e, result2)
                | Inr since_text \<Rightarrow>
                    let result3 =
                      (case since_text of
                         None \<Rightarrow> result2
                       | Some since \<Rightarrow>
                           if since = [] then result2
                           else result2\<lparr>seller_since :=
                                  Some (py_strip (py_replace since (u ''Aktiv seit '') []))\<rparr>)
                    in
                    (case get_elements_content soup ''.userprofile-vip-badges .userbadge-tag'' of
                       Inl e \<Rightarrow> (Some e, result3)
                     | Inr badges \<Rightarrow>
                         (None, result3\<lparr>seller_badges :=
                            map py_strip
                              (filter (\<lambda>badge. badge \<noteq> [] \<and> py_strip badge \<noteq> []) badges)\<rparr>)))))"

definition get_seller_details :: "soup \<Rightarrow> raised + seller_info" where
  \<comment> \<open>\<open>except Exception\<close> prints the error; \<open>result\<close> is returned on both paths.\<close>
  "get_seller_details soup =
     (let result = \<lparr>seller_name = None, seller_since = None, seller_type = u ''private'',
                     seller_badges = []\<rparr>
      in case fill_seller_details soup result of
           (Some e, result') \<Rightarrow> Inr result'
         | (None, result') \<Rightarrow> Inr result')"

fun details_of_items :: "tag list \<Rightarrow> (pystr \<times> pystr) list \<Rightarrow> (pystr \<times> pystr) list" where
  \<comment> \<open>The \<open>for item in detail_items\<close> loop of \<open>get_details\<close>. The dictionary keeps
      the order of first insertion; a label seen again overwrites its value.\<close>
  "details_of_items [] details = details"
| "details_of_items (item # items) details =
     (case (find_class (u ''addetailslist--detail--label'') (tag_contents item),
            find_class (u ''addetailslist--detail--value'') (tag_contents item)) of
        (Some label_element, Some value_element) \<Rightarrow>
          details_of_items items
            (AList.update (get_text label_element) (get_text value_element) details)
      | _ \<Rightarrow> details_of_items items details)"

definition get_details :: "soup \<Rightarrow> raised + (pystr \<times> pystr) list" where
  "get_details soup =
     (case soup ''#viewad-details .addetailslist--detail'' of
        Inl e \<Rightarrow> Inr []
      | Inr detail_items \<Rightarrow> Inr (details_of_items detail_items []))"

definition get_features :: "soup \<Rightarrow> raised + pystr list" where
  "get_features soup =
     (case soup ''#viewad-configuration .checktaglist .checktag'' of
        Inl e \<Rightarrow> Inr []
      | Inr feature_elements \<Rightarrow>
          Inr (filter (\<lambda>feature_text. feature_text \<noteq> []) (map get_text feature_elements)))"

record location_info =
  loc_zip :: pystr
  loc_city :: pystr
  loc_state :: pystr

definition get_location :: "soup \<Rightarrow> raised + location_info" where
  "get_location soup =
     (case get_element_content soup ''#viewad-locality'' None of
        Inl e \<Rightarrow> Inl e
      | Inr None \<Rightarrow> Inr \<lparr>loc_zip = [], loc_city = [], loc_state = []\<rparr>
      | Inr (Some location_text) \<Rightarrow>
          if location_text = [] then Inr \<lparr>loc_zip = [], loc_city = [], loc_state = []\<rparr>
          else
            (case py_split location_text of
               [] \<Rightarrow> Inl (Error (u ''list index out of range''))
             | zip_code # rest \<Rightarrow>
                 Inr \<lparr>loc_zip = zip_code, loc_city = py_join (u '' '') rest, loc_state = []\<rparr>))"

record extra_info_dict =
  created_at :: "pystr option"
  extra_views :: pystr

definition get_extra_info :: "soup \<Rightarrow> raised + extra_info_dict" where
  "get_extra_info soup =
     (let result = \<lparr>created_at = None, extra_views = u ''0''\<rparr> in
      case select_one soup ''#viewad-extra-info > div:nth-child(1) > span'' of
        Inl e \<Rightarrow> Inr result
      | Inr date_element \<Rightarrow>
          let result1 =
            (case date_element of
               None \<Rightarrow> result
             | Some element \<Rightarrow> result\<lparr>created_at := Some (get_text element)\<rparr>)
          in
          (case select_one soup ''#viewad-cntr-num'' of
             Inl e \<Rightarrow> Inr result1
           | Inr None \<Rightarrow> Inr result1
           | Inr (Some views_element) \<Rightarrow> Inr (result1\<lparr>extra_views := get_text views_element\<rparr>)))"

section \<open>scrapers/inserat.py: one attempt\<close>

record listing =
  ad_id :: "pystr option"
  categories :: "pystr list"
  title :: pystr
  status :: pystr
  ad_price :: price
  delivery :: "pystr option"
  location :: location_info
  views :: pystr
  description :: "pystr option"
  images :: "pystr list"
  details :: "(pystr \<times> pystr) list"
  features :: "pystr list"
  seller :: seller_info
  extra_info :: extra_info_dict

definition bind_raised :: "raised + 'a \<Rightarrow> ('a \<Rightarrow> raised + 'b) \<Rightarrow> raised + 'b" where
  \<comment> \<open>One statement after another inside a \<open>try\<close> block: the first exception ends it.\<close>
  "bind_raised r f = (case r of Inl e \<Rightarrow> Inl e | Inr v \<Rightarrow> f v)"

definition clean_description :: "pystr option \<Rightarrow> pystr option" where
  "clean_description d =
     (case d of
        None \<Rightarrow> None
      | Some text \<Rightarrow>
          if text = [] then Some text
          else Some (sub_runs (\<lambda>c. c = 10) 10 False
                       (py_strip (sub_runs (\<lambda>c. c = 32 \<or> c = 9) 32 False text))))"

definition shipping_of :: "pystr option \<Rightarrow> pystr option" where
  "shipping_of shipping_text =
     (case shipping_text of
        None \<Rightarrow> None
      | Some text \<Rightarrow>
          if text = [] then None
          else if py_in (u ''Nur Abholung'') text then Some (u ''pickup'')
          else if py_in (u ''Versand'') text then Some (u ''shipping'')
          else None)"

definition bullet_sep :: pystr where
  \<comment> \<open>A space, U+2022 and a space.\<close>
  "bullet_sep = [32, 8226, 32]"

definition title_of :: "pystr option \<Rightarrow> raised + pystr" where
  "title_of t =
     (case t of
        None \<Rightarrow> Inl (Error (u ''argument of type 'NoneType' is not iterable''))
      | Some text \<Rightarrow>
          if py_in bullet_sep text
          then (case rev (py_split_sep text bullet_sep) of
                  [] \<Rightarrow> Inl (Error (u ''list index out of range''))
                | piece # pieces \<Rightarrow> Inr (py_strip piece))
          else Inr (py_strip text))"

definition views_of :: "pystr option \<Rightarrow> pystr" where
  "views_of v = (case v of None \<Rightarrow> u ''0'' | Some text \<Rightarrow> if text = [] then u ''0'' else text)"

definition extract_listing :: "soup \<Rightarrow> raised + listing" where
  \<comment> \<open>The body of the \<open>try\<close> block of \<open>get_inserate_details_httpx\<close>, from the parsed
      document on.\<close>
  "extract_listing soup =
     bind_raised (get_element_content soup ''#viewad-ad-id-box > ul > li:nth-child(2)''
                    (Some (u ''[ERROR] Ad ID not found''))) (\<lambda>ad_id'.
     bind_raised (get_elements_content soup ''.breadcrump-link'') (\<lambda>cats.
     bind_raised (get_element_content soup ''#viewad-title''
                    (Some (u ''[ERROR] Title not found''))) (\<lambda>title'.
     bind_raised (get_element_content soup ''#viewad-price'' None) (\<lambda>price_element.
     bind_raised (get_element_content soup ''#viewad-cntr-num'' None) (\<lambda>views'.
     bind_raised (get_element_content soup ''#viewad-description-text'' None) (\<lambda>description'.
     bind_raised (get_image_sources soup ''#viewad-image'') (\<lambda>images'.
     bind_raised (get_seller_details soup) (\<lambda>seller_details.
     bind_raised (get_details soup) (\<lambda>details'.
     bind_raised (get_features soup) (\<lambda>features'.
     bind_raised (get_element_content soup ''.boxedarticle--details--shipping'' None)
       (\<lambda>shipping_text.
     bind_raised (get_location soup) (\<lambda>location'.
     bind_raised (get_extra_info soup) (\<lambda>extra_info'.
     bind_raised (title_of title') (\<lambda>title''.
       Inr \<lparr>ad_id = ad_id',
            categories = filter (\<lambda>cat. cat \<noteq> []) (map py_strip cats),
            title = title'',
            status = u ''active'',
            ad_price = parse_price price_element,
            delivery = shipping_of shipping_text,
            location = location',
            views = views_of views',
            description = clean_description description',
            images = images',
            details = details',
            features = features',
            seller = seller_details,
            extra_info = extra_info'\<rparr>))))))))))))))"

definition get_inserate_details_httpx :: "raised + soup \<Rightarrow> exn + listing" where
  \<comment> \<open>\<open>fetched\<close> is what \<open>client.get\<close>, \<open>raise_for_status\<close> and the parser give for
      the URL: the parsed document or the exception raised.\<close>
  "get_inserate_details_httpx fetched =
     (case bind_raised fetched extract_listing of
        Inr record' \<Rightarrow> Inr record'
      | Inl (HTTPStatusError status_code reason_phrase) \<Rightarrow>
          Inl (HTTPException status_code
                 (DetailText (u ''Could not fetch ad details from source: '' @ reason_phrase)))
      | Inl (Error text) \<Rightarrow> Inl (HTTPException 500 (DetailText text)))"

section \<open>utils/error_handling.py and utils/performance.py\<close>

text \<open>
  Neither module is among the sources. What the retry function reads of them is fixed by
  its own calls and by the specification; what they compute is a parameter of the model.
\<close>

datatype error_severity = LOW | MEDIUM | HIGH
  \<comment> \<open>Modelled from the spec: the enumeration \<open>ErrorSeverity\<close>, of which the sources
      use \<open>MEDIUM\<close>; the specification lists LOW, MEDIUM and HIGH.\<close>

record error_context =
  ctx_operation :: pystr
  ctx_listing_id :: pystr
  ctx_url :: pystr

record warning =
  w_message :: pystr
  w_severity :: error_severity
  w_context :: error_context
  w_affected_items :: "pystr list"
  w_impact_description :: pystr

definition add_warning ::
  "pystr \<Rightarrow> error_severity \<Rightarrow> error_context \<Rightarrow> pystr list \<Rightarrow> pystr \<Rightarrow> warning list \<Rightarrow> warning list" where
  \<comment> \<open>Modelled from the spec: \<open>WarningManager.add_warning\<close> is missing; the spec says
      that it appends to an ordered, append-only sequence scoped to the request.\<close>
  "add_warning message severity context affected_items impact_description ws =
     ws @ [\<lparr>w_message = message, w_severity = severity, w_context = context,
             w_affected_items = affected_items,
             w_impact_description = impact_description\<rparr>]"

definition get_user_friendly_messages :: "warning list \<Rightarrow> pystr list" where
  \<comment> \<open>Modelled from the spec: \<open>WarningManager.get_user_friendly_messages\<close> is missing;
      the spec says that it returns only the message strings.\<close>
  "get_user_friendly_messages ws = map w_message ws"

definition get_warning_summary :: "warning list \<Rightarrow> (error_severity \<times> nat) list" where
  \<comment> \<open>Modelled from the spec: \<open>WarningManager.get_warning_summary\<close> is missing; the
      spec says that it returns counts grouped by severity.\<close>
  "get_warning_summary ws =
     map (\<lambda>sev. (sev, length (filter (\<lambda>w. w_severity w = sev) ws))) [LOW, MEDIUM, HIGH]"

record structured_error =
  se_message :: pystr
  se_category_value :: pystr
  se_severity_value :: pystr
  se_recovery_suggestions :: "pystr list"

record page_metrics =
  pm_page_number :: nat
  pm_url :: pystr
  pm_success :: bool
  pm_retry_count :: nat
  pm_error_message :: "pystr option"
  pm_results_count :: nat
  pm_error_category :: "pystr option"
  pm_warning_count :: nat

section \<open>scrapers/inserat.py: the retry function\<close>

text \<open>
  The parameters of one call: what each attempt's fetch gives, and the three pieces of
  \<open>utils/error_handling.py\<close> the function calls. \<open>handle_exception\<close> is
  \<open>error_ctx.handle_exception(e, "detail_fetch_httpx")\<close> with \<open>retry_attempt\<close> set to
  the attempt; \<open>should_retry\<close> is the method of the structured error; \<open>context_exit\<close>
  is what \<open>error_handling_context\<close> does with an exception that leaves its block:
  \<open>None\<close> when it suppresses it, the exception that goes on otherwise.
\<close>

record env =
  fetch :: "nat \<Rightarrow> raised + soup"
  handle_exception :: "nat \<Rightarrow> exn \<Rightarrow> structured_error"
  should_retry :: "structured_error \<Rightarrow> int \<Rightarrow> bool"
  context_exit :: "exn \<Rightarrow> exn option"

text \<open>
  The state of one call: the warnings of its \<open>WarningManager\<close>, the page metrics of its
  \<open>PerformanceTracker\<close> and \<open>last_structured_error\<close>. Two more fields observe the
  call: the attempts for which \<open>get_inserate_details_httpx\<close> was awaited and the
  arguments of \<open>asyncio.sleep\<close>. Wall-clock times are left out.
\<close>

record pstate =
  warning_manager :: "warning list"
  tracker :: "page_metrics list"
  last_structured_error :: "structured_error option"
  attempts_made :: "nat list"
  sleeps :: "real list"

record response =
  success :: bool
  data :: "listing option"
  error :: "pystr option"
  error_category :: "pystr option"
  error_severity :: "pystr option"
  recovery_suggestions :: "pystr list option"
  performance_metrics :: "page_metrics list"
  warnings :: "pystr list option"
  detailed_warnings :: "warning list option"
  warning_summary :: "(error_severity \<times> nat) list option"

datatype loop_exit = Returned response | Raised exn | Exhausted

datatype outcome = Return response | ReturnNone | Raise exn

definition asyncio_trandom_uniform :: "real \<Rightarrow> real \<Rightarrow> exn + real" where
  \<comment> \<open>\<open>asyncio.trandom.uniform(a, b)\<close>: the module \<open>asyncio\<close> of the standard library
      has no attribute \<open>trandom\<close>, so the attribute lookup raises before \<open>uniform\<close> is
      called.\<close>
  "asyncio_trandom_uniform a b =
     Inl (AttributeError (u ''module 'asyncio' has no attribute 'trandom'' @ [39]))"

definition listing_url :: "pystr \<Rightarrow> pystr" where
  "listing_url listing_id = u ''https://www.kleinanzeigen.de/s-anzeige/'' @ listing_id"

definition request_context :: "pystr \<Rightarrow> error_context" where
  "request_context listing_id =
     \<lparr>ctx_operation = u ''fetch_listing_details_httpx'', ctx_listing_id = listing_id,
      ctx_url = listing_url listing_id\<rparr>"

definition incomplete_warning :: "pystr \<Rightarrow> warning list \<Rightarrow> warning list" where
  "incomplete_warning listing_id =
     add_warning (u ''Incomplete data extracted for listing '' @ listing_id) MEDIUM
       (request_context listing_id) [listing_id]
       (u ''Some listing information may be missing'')"

definition retry_warning ::
  "pystr \<Rightarrow> structured_error \<Rightarrow> nat \<Rightarrow> int \<Rightarrow> warning list \<Rightarrow> warning list" where
  "retry_warning listing_id structured_error attempt retry_count =
     add_warning
       (u ''Retrying listing '' @ listing_id @ u '' after '' @
        se_category_value structured_error @ u '' error (attempt '' @
        str_nat (attempt + 1) @ u ''/'' @ str_int (retry_count + 1) @ u '')'')
       MEDIUM (request_context listing_id) [listing_id]
       (u ''Temporary delay before retry due to '' @ se_category_value structured_error @
        u '' error'')"

definition with_warnings :: "bool \<Rightarrow> warning list \<Rightarrow> response \<Rightarrow> response" where
  \<comment> \<open>\<open>if warnings:\<close> adds the warning entries; the summary is added on success only.\<close>
  "with_warnings summary ws r =
     (if ws = [] then r
      else r\<lparr>warnings := Some (get_user_friendly_messages ws),
             detailed_warnings := Some ws,
             warning_summary := (if summary then Some (get_warning_summary ws) else None)\<rparr>)"

definition success_response :: "listing \<Rightarrow> pstate \<Rightarrow> response" where
  "success_response record' s =
     with_warnings True (warning_manager s)
       \<lparr>success = True, data = Some record', error = None, error_category = None,
        error_severity = None, recovery_suggestions = None,
        performance_metrics = tracker s, warnings = None, detailed_warnings = None,
        warning_summary = None\<rparr>"

definition failure_response :: "structured_error \<Rightarrow> pstate \<Rightarrow> response" where
  "failure_response structured_error s =
     with_warnings False (warning_manager s)
       \<lparr>success = False, data = None, error = Some (se_message structured_error),
        error_category = Some (se_category_value structured_error),
        error_severity = Some (se_severity_value structured_error),
        recovery_suggestions = Some (se_recovery_suggestions structured_error),
        performance_metrics = tracker s, warnings = None, detailed_warnings = None,
        warning_summary = None\<rparr>"

fun attempt_loop :: "env \<Rightarrow> pystr \<Rightarrow> int \<Rightarrow> nat list \<Rightarrow> pstate \<Rightarrow> loop_exit \<times> pstate" where
  \<comment> \<open>\<open>for attempt in range(retry_count + 1)\<close>, over the attempts still to run.\<close>
  "attempt_loop E listing_id retry_count [] s = (Exhausted, s)"
| "attempt_loop E listing_id retry_count (attempt # rest) s =
     (let s0 = s\<lparr>attempts_made := attempts_made s @ [attempt]\<rparr> in
      case get_inserate_details_httpx (fetch E attempt) of
        Inr record' \<Rightarrow>
          let s1 = (if \<not> truthy (ad_id record')
                    then s0\<lparr>warning_manager := incomplete_warning listing_id (warning_manager s0)\<rparr>
                    else s0);
              s2 = s1\<lparr>tracker := tracker s1 @
                     [\<lparr>pm_page_number = 1, pm_url = listing_url listing_id, pm_success = True,
                       pm_retry_count = attempt, pm_error_message = None,
                       pm_results_count = 1, pm_error_category = None,
                       pm_warning_count = length (warning_manager s1)\<rparr>]\<rparr>
          in (Returned (success_response record' s2), s2)
      | Inl e \<Rightarrow>
          let structured_error = handle_exception E attempt e;
              s1 = s0\<lparr>last_structured_error := Some structured_error\<rparr>
          in
          if int attempt < retry_count \<and> should_retry E structured_error retry_count
          then
            let s2 = s1\<lparr>warning_manager :=
                        retry_warning listing_id structured_error attempt retry_count
                          (warning_manager s1)\<rparr>
            in
            (case asyncio_trandom_uniform 0 1 of
               Inl raised_in_handler \<Rightarrow> (Raised raised_in_handler, s2)
             | Inr jitter \<Rightarrow>
                 attempt_loop E listing_id retry_count rest
                   (s2\<lparr>sleeps := sleeps s2 @ [2 ^ attempt + jitter]\<rparr>))
          else
            let error_msg = u ''Failed after '' @ str_nat (attempt + 1) @ u '' attempts: '' @
                              se_message structured_error;
                s2 = s1\<lparr>tracker := tracker s1 @
                       [\<lparr>pm_page_number = 1, pm_url = listing_url listing_id,
                         pm_success = False, pm_retry_count = attempt,
                         pm_error_message = Some error_msg, pm_results_count = 0,
                         pm_error_category = Some (se_category_value structured_error),
                         pm_warning_count = length (warning_manager s1)\<rparr>]\<rparr>
            in (Returned (failure_response structured_error s2), s2))"

definition leave_context :: "env \<Rightarrow> exn \<Rightarrow> outcome" where
  \<comment> \<open>An exception leaves the \<open>with\<close> block: suppressed, the function ends without a
      \<open>return\<close> and gives \<open>None\<close>; otherwise the caller sees an exception.\<close>
  "leave_context E e = (case context_exit E e of None \<Rightarrow> ReturnNone | Some e' \<Rightarrow> Raise e')"

definition initial_state :: pstate where
  "initial_state =
     \<lparr>warning_manager = [], tracker = [], last_structured_error = None,
      attempts_made = [], sleeps = []\<rparr>"

definition get_inserate_details_optimized :: "env \<Rightarrow> pystr \<Rightarrow> int \<Rightarrow> outcome \<times> pstate" where
  "get_inserate_details_optimized E listing_id retry_count =
     (case attempt_loop E listing_id retry_count [0..<nat (retry_count + 1)] initial_state of
        (Returned r, s) \<Rightarrow> (Return r, s)
      | (Raised e, s) \<Rightarrow> (leave_context E e, s)
      | (Exhausted, s) \<Rightarrow>
          (case last_structured_error s of
             Some last_error \<Rightarrow>
               (leave_context E
                  (HTTPException 500
                     (DetailError (se_message last_error) (se_category_value last_error)
                        (se_severity_value last_error) (se_recovery_suggestions last_error))), s)
           | None \<Rightarrow>
               (leave_context E
                  (HTTPException 500 (DetailText (u ''Unexpected error in retry loop''))), s)))"

section \<open>routers/inserat.py\<close>

record clean_response =
  cr_success :: bool
  cr_data :: "listing option"
  cr_performance_metrics :: "page_metrics list"

definition get_inserat :: "env \<Rightarrow> pystr \<Rightarrow> (exn + clean_response) \<times> pystr list" where
  \<comment> \<open>The second component lists the identifiers \<open>get_inserate_details_optimized\<close> was
      called with. A result \<open>None\<close> has no \<open>get\<close>: the \<open>AttributeError\<close> is caught by
      \<open>except Exception\<close>, as is one that the retry function lets through.\<close>
  "get_inserat E id' =
     (if id' = [] \<or> py_strip id' = []
      then (Inl (HTTPException 400 (DetailText (u ''Invalid listing ID''))), [])
      else
        (case fst (get_inserate_details_optimized E id' 2) of
           Return r \<Rightarrow>
             if \<not> success r
             then (Inl (HTTPException 500 (DetailText (u ''Failed to fetch listing details''))),
                   [id'])
             else (Inr \<lparr>cr_success = success r, cr_data = data r,
                        cr_performance_metrics = performance_metrics r\<rparr>, [id'])
         | ReturnNone \<Rightarrow>
             (Inl (HTTPException 500 (DetailText (u ''Internal server error''))), [id'])
         | Raise (HTTPException status_code d) \<Rightarrow> (Inl (HTTPException status_code d), [id'])
         | Raise (AttributeError text) \<Rightarrow>
             (Inl (HTTPException 500 (DetailText (u ''Internal server error''))), [id'])))"

section \<open>Selectors outside the helpers' try blocks\<close>

definition direct_selectors :: "string list" where
  \<comment> \<open>The selectors that \<open>get_inserate_details_httpx\<close> hands to the CSS engine through
      \<open>get_element_content\<close>, \<open>get_elements_content\<close>, \<open>get_image_sources\<close> and
      \<open>get_location\<close>, none of which catches what the engine raises.\<close>
  "direct_selectors =
     [''#viewad-ad-id-box > ul > li:nth-child(2)'', ''.breadcrump-link'', ''#viewad-title'',
      ''#viewad-price'', ''#viewad-cntr-num'', ''#viewad-description-text'',
      ''#viewad-image'', ''.boxedarticle--details--shipping'', ''#viewad-locality'']"

section \<open>Example documents and calls\<close>

definition selector_refused :: raised where
  \<comment> \<open>What the CSS engine raises for the pseudo-class \<open>:has-text\<close>, which it does not
      know. The text, which \<open>get_seller_details\<close> only prints, is abridged.\<close>
  "selector_refused =
     Error (u '':has-text was detected as a pseudo-class and is either unsupported or invalid'')"

definition empty_soup :: soup where
  \<comment> \<open>A document in which no selector finds anything. The selector of the membership
      date is refused by the CSS engine, as for every document.\<close>
  "empty_soup =
     (\<lambda>selector. if selector = ''.userprofile-vip-details-text:has-text('Aktiv seit')''
                  then Inl selector_refused
                  else Inr [])"

definition default_listing :: listing where
  "default_listing =
     \<lparr>ad_id = Some (u ''[ERROR] Ad ID not found''), categories = [],
      title = u ''[ERROR] Title not found'', status = u ''active'',
      ad_price = \<lparr>amount = u ''0'', currency = euro, negotiable = False\<rparr>,
      delivery = None, location = \<lparr>loc_zip = [], loc_city = [], loc_state = []\<rparr>,
      views = u ''0'', description = None, images = [], details = [], features = [],
      seller = \<lparr>seller_name = None, seller_since = None, seller_type = u ''private'',
                 seller_badges = []\<rparr>,
      extra_info = \<lparr>created_at = None, extra_views = u ''0''\<rparr>\<rparr>"

definition gallery_soup :: soup where
  \<comment> \<open>A document with two images under the image selector and nothing else.\<close>
  "gallery_soup =
     (\<lambda>selector. if selector = ''#viewad-image''
                  then Inr [Tag [] [(u ''src'', u ''a.jpg'')] [],
                            Tag [] [(u ''src'', u ''b.jpg'')] []]
                  else empty_soup selector)"

definition no_id_soup :: soup where
  \<comment> \<open>A document whose identifier element is there and has no text.\<close>
  "no_id_soup =
     (\<lambda>selector. if selector = ''#viewad-ad-id-box > ul > li:nth-child(2)''
                  then Inr [Tag [] [] []]
                  else empty_soup selector)"

definition service_unavailable :: structured_error where
  "service_unavailable =
     \<lparr>se_message = u ''HTTP 503'', se_category_value = u ''http_status'',
      se_severity_value = u ''high'', se_recovery_suggestions = [u ''Try again later'']\<rparr>"

definition parsing_failure :: structured_error where
  "parsing_failure =
     \<lparr>se_message = u ''malformed document'', se_category_value = u ''parsing'',
      se_severity_value = u ''high'', se_recovery_suggestions = []\<rparr>"

definition unavailable_503 :: exn where
  "unavailable_503 =
     HTTPException 503
       (DetailText (u ''Could not fetch ad details from source: '' @ u ''Service Unavailable''))"

definition unavailable_env :: env where
  \<comment> \<open>Every fetch answers 503, which is classified as retryable; the context manager
      lets exceptions through.\<close>
  "unavailable_env =
     \<lparr>fetch = (\<lambda>attempt. Inl (HTTPStatusError 503 (u ''Service Unavailable''))),
      handle_exception = (\<lambda>attempt e. service_unavailable),
      should_retry = (\<lambda>structured_error max_retries. True),
      context_exit = Some\<rparr>"

definition recovering_env :: env where
  \<comment> \<open>The first fetch answers 503, every later one gives a document.\<close>
  "recovering_env =
     \<lparr>fetch = (\<lambda>attempt. if attempt = 0
                         then Inl (HTTPStatusError 503 (u ''Service Unavailable''))
                         else Inr empty_soup),
      handle_exception = (\<lambda>attempt e. service_unavailable),
      should_retry = (\<lambda>structured_error max_retries. True),
      context_exit = Some\<rparr>"

definition malformed_env :: env where
  \<comment> \<open>Every fetch fails in the parser, which is classified as not retryable.\<close>
  "malformed_env =
     \<lparr>fetch = (\<lambda>attempt. Inl (Error (u ''malformed document''))),
      handle_exception = (\<lambda>attempt e. parsing_failure),
      should_retry = (\<lambda>structured_error max_retries. False),
      context_exit = Some\<rparr>"

definition no_id_env :: env where
  "no_id_env =
     \<lparr>fetch = (\<lambda>attempt. Inr no_id_soup),
      handle_exception = (\<lambda>attempt e. service_unavailable),
      should_retry = (\<lambda>structured_error max_retries. True),
      context_exit = Some\<rparr>"

definition empty_page_env :: env where
  \<comment> \<open>Every fetch gives the document in which nothing is found.\<close>
  "empty_page_env =
     \<lparr>fetch = (\<lambda>attempt. Inr empty_soup),
      handle_exception = (\<lambda>attempt e. service_unavailable),
      should_retry = (\<lambda>structured_error max_retries. True),
      context_exit = Some\<rparr>"

definition after_retry_state :: pstate where
  \<comment> \<open>The state in which attempt 0 of a call for the listing \<open>123\<close> with
      \<open>retry_count = 2\<close> leaves the retry branch: one retry warning.\<close>
  "after_retry_state =
     \<lparr>warning_manager = retry_warning (u ''123'') service_unavailable 0 2 [],
      tracker = [], last_structured_error = Some service_unavailable,
      attempts_made = [0], sleeps = []\<rparr>"

definition no_attribute_trandom :: exn where
  "no_attribute_trandom =
     AttributeError (u ''module 'asyncio' has no attribute 'trandom'' @ [39])"

section \<open>Price parsing\<close>

text \<open>
  C7. The price text \<open>1.234,56 \<euro> VB\<close> is parsed to the amount \<open>1234.56\<close>, the currency
  \<open>\<euro>\<close> and negotiable; an absent price text and an empty one are parsed to the amount
  \<open>0\<close>, the currency \<open>\<euro>\<close> and not negotiable.
\<close>

theorem parse_price_scenarios:
  "parse_price (Some (u ''1.234,56 '' @ euro @ u '' VB'')) =
     \<lparr>amount = u ''1234.56'', currency = euro, negotiable = True\<rparr>
   \<and> parse_price None = \<lparr>amount = u ''0'', currency = euro, negotiable = False\<rparr>
   \<and> parse_price (Some []) = \<lparr>amount = u ''0'', currency = euro, negotiable = False\<rparr>"
  by (simp add: parse_price_def py_strip_def py_replace_def py_isspace_def
        u_def euro_def)

section \<open>Extraction helpers\<close>

lemma strip_blank: "\<forall>c \<in> set s. py_isspace c \<Longrightarrow> py_strip s = []"
proof -
  assume "\<forall>c \<in> set s. py_isspace c"
  then have h: "dropWhile py_isspace s = []" by simp
  show ?thesis by (simp only: py_strip_def h rev.simps dropWhile.simps)
qed

lemma seller_total: "\<exists>r. get_seller_details soup = Inr r"
  by (simp add: get_seller_details_def Let_def split: prod.splits option.splits)

lemma details_total: "\<exists>r. get_details soup = Inr r"
  by (simp add: get_details_def split: sum.splits)

lemma features_total: "\<exists>r. get_features soup = Inr r"
  by (simp add: get_features_def split: sum.splits)

lemma extra_info_total: "\<exists>r. get_extra_info soup = Inr r"
  by (simp add: get_extra_info_def Let_def split: sum.splits option.splits)

lemma nothing_found:
  "soup selector = Inr [] \<Longrightarrow>
   get_element_content soup selector dflt = Inr dflt \<and>
   get_elements_content soup selector = Inr [] \<and>
   get_image_sources soup selector = Inr []"
  by (simp add: get_element_content_def get_elements_content_def get_image_sources_def
        select_one_def)

lemma strip_has_nonspace:
  "py_strip s \<noteq> [] \<Longrightarrow> \<exists>c \<in> set (py_strip s). \<not> py_isspace c"
proof -
  assume ne: "py_strip s \<noteq> []"
  let ?ys = "dropWhile py_isspace (rev (dropWhile py_isspace s))"
  from ne have "?ys \<noteq> []" by (simp add: py_strip_def)
  then have "\<not> py_isspace (hd ?ys)" and "hd ?ys \<in> set ?ys"
    by (rule hd_dropWhile, simp)
  then show ?thesis by (auto simp: py_strip_def)
qed

lemma text_has_nonspace:
  "get_text t \<noteq> [] \<longrightarrow> (\<exists>c \<in> set (get_text t). \<not> py_isspace c)"
  "get_text_contents cs \<noteq> [] \<longrightarrow> (\<exists>c \<in> set (get_text_contents cs). \<not> py_isspace c)"
  by (induction t and cs rule: get_text_get_text_contents.induct)
     (auto dest: strip_has_nonspace)

lemma split_from_nonempty:
  "word \<noteq> [] \<or> (\<exists>c \<in> set s. \<not> py_isspace c) \<Longrightarrow> split_from s word \<noteq> []"
  by (induction s arbitrary: word) auto

lemma location_total:
  assumes "soup ''#viewad-locality'' = Inr ts"
  shows "\<exists>l. get_location soup = Inr l"
proof (cases ts)
  case Nil
  with assms show ?thesis
    by (simp add: get_location_def get_element_content_def select_one_def)
next
  case (Cons t rest)
  show ?thesis
  proof (cases "get_text t = []")
    case True
    with assms Cons show ?thesis
      by (simp add: get_location_def get_element_content_def select_one_def)
  next
    case False
    with text_has_nonspace(1) [of t] have "py_split (get_text t) \<noteq> []"
      by (simp add: py_split_def split_from_nonempty)
    with assms Cons False show ?thesis
      by (auto simp: get_location_def get_element_content_def select_one_def
            split: list.splits)
  qed
qed

lemma content_total:
  "soup selector = Inr ts \<Longrightarrow>
   \<exists>v. get_element_content soup selector dflt = Inr v \<and> (dflt \<noteq> None \<longrightarrow> v \<noteq> None)"
  by (cases ts) (simp_all add: get_element_content_def select_one_def)

lemma contents_total: "soup selector = Inr ts \<Longrightarrow> \<exists>v. get_elements_content soup selector = Inr v"
  by (simp add: get_elements_content_def)

lemma images_total: "soup selector = Inr ts \<Longrightarrow> \<exists>v. get_image_sources soup selector = Inr v"
  by (cases ts) (simp_all add: get_image_sources_def select_one_def split: option.splits)

lemma split_sep_nonempty: "split_sep_from sep s piece \<noteq> []"
  by (induction sep s piece rule: split_sep_from.induct) auto

lemma title_total: "t \<noteq> None \<Longrightarrow> \<exists>v. title_of t = Inr v"
  by (cases t)
     (auto simp: title_of_def py_split_sep_def split_sep_nonempty split: list.splits)

lemma extract_total:
  assumes "\<forall>selector \<in> set direct_selectors. \<exists>ts. soup selector = Inr ts"
  shows "\<exists>r. extract_listing soup = Inr r"
proof -
  from assms obtain t1 t2 t3 t4 t5 t6 t7 t8 t9 where sel:
    "soup ''#viewad-ad-id-box > ul > li:nth-child(2)'' = Inr t1"
    "soup ''.breadcrump-link'' = Inr t2" "soup ''#viewad-title'' = Inr t3"
    "soup ''#viewad-price'' = Inr t4" "soup ''#viewad-cntr-num'' = Inr t5"
    "soup ''#viewad-description-text'' = Inr t6" "soup ''#viewad-image'' = Inr t7"
    "soup ''.boxedarticle--details--shipping'' = Inr t8" "soup ''#viewad-locality'' = Inr t9"
    unfolding direct_selectors_def by (simp only: list.set ball_simps) blast
  obtain a where a: "get_element_content soup ''#viewad-ad-id-box > ul > li:nth-child(2)''
                       (Some (u ''[ERROR] Ad ID not found'')) = Inr a"
    using content_total [of soup "''#viewad-ad-id-box > ul > li:nth-child(2)''" t1] sel(1)
    by blast
  obtain c where c: "get_elements_content soup ''.breadcrump-link'' = Inr c"
    using contents_total [of soup "''.breadcrump-link''" t2] sel(2) by blast
  obtain t where t: "get_element_content soup ''#viewad-title''
                       (Some (u ''[ERROR] Title not found'')) = Inr t" and tn: "t \<noteq> None"
    using content_total [of soup "''#viewad-title''" t3 "Some (u ''[ERROR] Title not found'')"]
      sel(3)
    by auto
  obtain p where p: "get_element_content soup ''#viewad-price'' None = Inr p"
    using content_total [of soup "''#viewad-price''" t4] sel(4) by blast
  obtain v where v: "get_element_content soup ''#viewad-cntr-num'' None = Inr v"
    using content_total [of soup "''#viewad-cntr-num''" t5] sel(5) by blast
  obtain d where d: "get_element_content soup ''#viewad-description-text'' None = Inr d"
    using content_total [of soup "''#viewad-description-text''" t6] sel(6) by blast
  obtain i where i: "get_image_sources soup ''#viewad-image'' = Inr i"
    using images_total [of soup "''#viewad-image''" t7] sel(7) by blast
  obtain sd where sd: "get_seller_details soup = Inr sd" using seller_total by blast
  obtain de where de: "get_details soup = Inr de" using details_total by blast
  obtain f where f: "get_features soup = Inr f" using features_total by blast
  obtain sh where sh: "get_element_content soup ''.boxedarticle--details--shipping'' None = Inr sh"
    using content_total [of soup "''.boxedarticle--details--shipping''" t8] sel(8) by blast
  obtain l where l: "get_location soup = Inr l" using location_total [of soup t9] sel(9) by blast
  obtain x where x: "get_extra_info soup = Inr x" using extra_info_total by blast
  obtain t' where t': "title_of t = Inr t'" using title_total [OF tn] by blast
  show ?thesis
    by (simp add: extract_listing_def bind_raised_def a c t p v d i sd de f sh l x t')
qed

lemma extract_listing_cases:
  assumes "extract_listing soup = Inr r"
  shows "\<exists>a c t p v d i sd de f sh l x t'.
           get_element_content soup ''#viewad-ad-id-box > ul > li:nth-child(2)''
             (Some (u ''[ERROR] Ad ID not found'')) = Inr a \<and>
           get_elements_content soup ''.breadcrump-link'' = Inr c \<and>
           get_element_content soup ''#viewad-title''
             (Some (u ''[ERROR] Title not found'')) = Inr t \<and>
           get_element_content soup ''#viewad-price'' None = Inr p \<and>
           get_element_content soup ''#viewad-cntr-num'' None = Inr v \<and>
           get_element_content soup ''#viewad-description-text'' None = Inr d \<and>
           get_image_sources soup ''#viewad-image'' = Inr i \<and>
           get_seller_details soup = Inr sd \<and>
           get_details soup = Inr de \<and>
           get_features soup = Inr f \<and>
           get_element_content soup ''.boxedarticle--details--shipping'' None = Inr sh \<and>
           get_location soup = Inr l \<and>
           get_extra_info soup = Inr x \<and>
           title_of t = Inr t' \<and>
           r = \<lparr>ad_id = a, categories = filter (\<lambda>cat. cat \<noteq> []) (map py_strip c),
                title = t', status = u ''active'', ad_price = parse_price p,
                delivery = shipping_of sh, location = l, views = views_of v,
                description = clean_description d, images = i, details = de,
                features = f, seller = sd, extra_info = x\<rparr>"
  using assms unfolding extract_listing_def bind_raised_def
  by (auto split: sum.splits)

lemma placeholder_title:
  "title_of (Some (u ''[ERROR] Title not found'')) = Inr (u ''[ERROR] Title not found'')"
  by (simp add: title_of_def bullet_sep_def u_def py_strip_def py_isspace_def)

lemma seller_name_default:
  "get_seller_details soup = Inr sd \<Longrightarrow> soup ''.userprofile-vip'' = Inr [] \<Longrightarrow>
   seller_name sd = None"
  by (simp add: get_seller_details_def fill_seller_details_def get_element_content_def
        get_elements_content_def select_one_def Let_def
        split: sum.splits list.splits option.splits if_splits)
     auto

lemma seller_type_default:
  "get_seller_details soup = Inr sd \<Longrightarrow> soup ''.userprofile-vip-details-text'' = Inr [] \<Longrightarrow>
   seller_type sd = u ''private''"
  by (simp add: get_seller_details_def fill_seller_details_def get_element_content_def
        get_elements_content_def select_one_def Let_def
        split: sum.splits list.splits option.splits if_splits)
     auto

lemma seller_since_default:
  "get_seller_details soup = Inr sd \<Longrightarrow>
   soup ''.userprofile-vip-details-text:has-text('Aktiv seit')'' = Inr [] \<or>
   (\<exists>e. soup ''.userprofile-vip-details-text:has-text('Aktiv seit')'' = Inl e) \<Longrightarrow>
   seller_since sd = None"
  by (simp add: get_seller_details_def fill_seller_details_def get_element_content_def
        get_elements_content_def select_one_def Let_def
        split: sum.splits list.splits option.splits if_splits)
     auto

lemma seller_badges_default:
  "get_seller_details soup = Inr sd \<Longrightarrow>
   soup ''.userprofile-vip-badges .userbadge-tag'' = Inr [] \<or>
   (\<exists>e. soup ''.userprofile-vip-details-text:has-text('Aktiv seit')'' = Inl e) \<Longrightarrow>
   seller_badges sd = []"
  by (simp add: get_seller_details_def fill_seller_details_def get_element_content_def
        get_elements_content_def select_one_def Let_def
        split: sum.splits list.splits option.splits if_splits)
     auto

lemma seller_fields:
  assumes "get_seller_details soup = Inr sd"
  shows "(soup ''.userprofile-vip'' = Inr [] \<longrightarrow> seller_name sd = None) \<and>
         (soup ''.userprofile-vip-details-text'' = Inr [] \<longrightarrow> seller_type sd = u ''private'') \<and>
         (soup ''.userprofile-vip-details-text:has-text('Aktiv seit')'' = Inr [] \<longrightarrow>
            seller_since sd = None) \<and>
         ((\<exists>e. soup ''.userprofile-vip-details-text:has-text('Aktiv seit')'' = Inl e) \<longrightarrow>
            seller_since sd = None \<and> seller_badges sd = []) \<and>
         (soup ''.userprofile-vip-badges .userbadge-tag'' = Inr [] \<longrightarrow> seller_badges sd = [])"
  using seller_name_default [OF assms] seller_type_default [OF assms]
    seller_since_default [OF assms] seller_badges_default [OF assms]
  by blast

lemma details_default:
  "get_details soup = Inr de \<Longrightarrow> soup ''#viewad-details .addetailslist--detail'' = Inr [] \<Longrightarrow>
   de = []"
  by (simp add: get_details_def)

lemma features_default:
  "get_features soup = Inr f \<Longrightarrow>
   soup ''#viewad-configuration .checktaglist .checktag'' = Inr [] \<Longrightarrow> f = []"
  by (simp add: get_features_def)

lemma location_default:
  "get_location soup = Inr l \<Longrightarrow> soup ''#viewad-locality'' = Inr [] \<Longrightarrow>
   l = \<lparr>loc_zip = [], loc_city = [], loc_state = []\<rparr>"
  by (simp add: get_location_def get_element_content_def select_one_def)

lemma created_at_default:
  "get_extra_info soup = Inr x \<Longrightarrow>
   soup ''#viewad-extra-info > div:nth-child(1) > span'' = Inr [] \<Longrightarrow> created_at x = None"
  by (auto simp: get_extra_info_def select_one_def Let_def
        split: sum.splits list.splits option.splits)

lemma extra_views_default:
  "get_extra_info soup = Inr x \<Longrightarrow> soup ''#viewad-cntr-num'' = Inr [] \<Longrightarrow>
   extra_views x = u ''0''"
  by (auto simp: get_extra_info_def select_one_def Let_def
        split: sum.splits list.splits option.splits)

lemma wrapped_fields:
  "(get_details soup = Inr de \<and> soup ''#viewad-details .addetailslist--detail'' = Inr [] \<longrightarrow>
      de = []) \<and>
   (get_features soup = Inr f \<and>
    soup ''#viewad-configuration .checktaglist .checktag'' = Inr [] \<longrightarrow> f = []) \<and>
   (get_location soup = Inr l \<and> soup ''#viewad-locality'' = Inr [] \<longrightarrow>
      l = \<lparr>loc_zip = [], loc_city = [], loc_state = []\<rparr>) \<and>
   (get_extra_info soup = Inr x \<and>
    soup ''#viewad-extra-info > div:nth-child(1) > span'' = Inr [] \<longrightarrow> created_at x = None) \<and>
   (get_extra_info soup = Inr x \<and> soup ''#viewad-cntr-num'' = Inr [] \<longrightarrow>
      extra_views x = u ''0'')"
  using details_default [of soup de] features_default [of soup f] location_default [of soup l]
    created_at_default [of soup x] extra_views_default [of soup x]
  by blast

lemma listing_field_defaults:
  assumes "extract_listing soup = Inr r"
  shows "(soup ''#viewad-ad-id-box > ul > li:nth-child(2)'' = Inr [] \<longrightarrow>
            ad_id r = Some (u ''[ERROR] Ad ID not found'')) \<and>
         (soup ''.breadcrump-link'' = Inr [] \<longrightarrow> categories r = []) \<and>
         (soup ''#viewad-title'' = Inr [] \<longrightarrow> title r = u ''[ERROR] Title not found'') \<and>
         (soup ''#viewad-price'' = Inr [] \<longrightarrow>
            ad_price r = \<lparr>amount = u ''0'', currency = euro, negotiable = False\<rparr>) \<and>
         (soup ''#viewad-cntr-num'' = Inr [] \<longrightarrow>
            views r = u ''0'' \<and> extra_views (extra_info r) = u ''0'') \<and>
         (soup ''#viewad-description-text'' = Inr [] \<longrightarrow> description r = None) \<and>
         (soup ''#viewad-image'' = Inr [] \<longrightarrow> images r = []) \<and>
         (soup ''.boxedarticle--details--shipping'' = Inr [] \<longrightarrow> delivery r = None) \<and>
         (soup ''#viewad-locality'' = Inr [] \<longrightarrow>
            location r = \<lparr>loc_zip = [], loc_city = [], loc_state = []\<rparr>) \<and>
         (soup ''#viewad-details .addetailslist--detail'' = Inr [] \<longrightarrow> details r = []) \<and>
         (soup ''#viewad-configuration .checktaglist .checktag'' = Inr [] \<longrightarrow>
            features r = []) \<and>
         (soup ''#viewad-extra-info > div:nth-child(1) > span'' = Inr [] \<longrightarrow>
            created_at (extra_info r) = None) \<and>
         (soup ''.userprofile-vip'' = Inr [] \<longrightarrow> seller_name (seller r) = None) \<and>
         (soup ''.userprofile-vip-details-text'' = Inr [] \<longrightarrow>
            seller_type (seller r) = u ''private'') \<and>
         (soup ''.userprofile-vip-details-text:has-text('Aktiv seit')'' = Inr [] \<longrightarrow>
            seller_since (seller r) = None) \<and>
         ((\<exists>e. soup ''.userprofile-vip-details-text:has-text('Aktiv seit')'' = Inl e) \<longrightarrow>
            seller_since (seller r) = None \<and> seller_badges (seller r) = []) \<and>
         (soup ''.userprofile-vip-badges .userbadge-tag'' = Inr [] \<longrightarrow>
            seller_badges (seller r) = [])"
proof -
  from extract_listing_cases [OF assms] obtain a c t p v d i sd de f sh l x t' where
    a: "get_element_content soup ''#viewad-ad-id-box > ul > li:nth-child(2)''
          (Some (u ''[ERROR] Ad ID not found'')) = Inr a"
    and c: "get_elements_content soup ''.breadcrump-link'' = Inr c"
    and t: "get_element_content soup ''#viewad-title''
              (Some (u ''[ERROR] Title not found'')) = Inr t"
    and p: "get_element_content soup ''#viewad-price'' None = Inr p"
    and v: "get_element_content soup ''#viewad-cntr-num'' None = Inr v"
    and d: "get_element_content soup ''#viewad-description-text'' None = Inr d"
    and i: "get_image_sources soup ''#viewad-image'' = Inr i"
    and sd: "get_seller_details soup = Inr sd"
    and de: "get_details soup = Inr de"
    and f: "get_features soup = Inr f"
    and sh: "get_element_content soup ''.boxedarticle--details--shipping'' None = Inr sh"
    and l: "get_location soup = Inr l"
    and x: "get_extra_info soup = Inr x"
    and t': "title_of t = Inr t'"
    and r: "r = \<lparr>ad_id = a, categories = filter (\<lambda>cat. cat \<noteq> []) (map py_strip c),
                  title = t', status = u ''active'', ad_price = parse_price p,
                  delivery = shipping_of sh, location = l, views = views_of v,
                  description = clean_description d, images = i, details = de,
                  features = f, seller = sd, extra_info = x\<rparr>"
    by blast
  have 1: "soup ''#viewad-ad-id-box > ul > li:nth-child(2)'' = Inr [] \<longrightarrow>
             ad_id r = Some (u ''[ERROR] Ad ID not found'')"
    using a r by (auto simp: nothing_found)
  have 2: "soup ''.breadcrump-link'' = Inr [] \<longrightarrow> categories r = []"
    using c r by (auto simp: nothing_found)
  have 3: "soup ''#viewad-title'' = Inr [] \<longrightarrow> title r = u ''[ERROR] Title not found''"
    using t t' r by (auto simp: nothing_found placeholder_title)
  have 4: "soup ''#viewad-price'' = Inr [] \<longrightarrow>
             ad_price r = \<lparr>amount = u ''0'', currency = euro, negotiable = False\<rparr>"
    using p r by (auto simp: nothing_found parse_price_def)
  have 5: "soup ''#viewad-cntr-num'' = Inr [] \<longrightarrow>
             views r = u ''0'' \<and> extra_views (extra_info r) = u ''0''"
    using v x r wrapped_fields [of soup de f l x] by (auto simp: nothing_found views_of_def)
  have 6: "soup ''#viewad-description-text'' = Inr [] \<longrightarrow> description r = None"
    using d r by (auto simp: nothing_found clean_description_def)
  have 7: "soup ''#viewad-image'' = Inr [] \<longrightarrow> images r = []"
    using i r by (auto simp: nothing_found)
  have 8: "soup ''.boxedarticle--details--shipping'' = Inr [] \<longrightarrow> delivery r = None"
    using sh r by (auto simp: nothing_found shipping_of_def)
  have 9: "(soup ''#viewad-locality'' = Inr [] \<longrightarrow>
              location r = \<lparr>loc_zip = [], loc_city = [], loc_state = []\<rparr>) \<and>
           (soup ''#viewad-details .addetailslist--detail'' = Inr [] \<longrightarrow> details r = []) \<and>
           (soup ''#viewad-configuration .checktaglist .checktag'' = Inr [] \<longrightarrow>
              features r = []) \<and>
           (soup ''#viewad-extra-info > div:nth-child(1) > span'' = Inr [] \<longrightarrow>
              created_at (extra_info r) = None)"
    using de f l x r wrapped_fields [of soup de f l x] by simp
  have 10: "(soup ''.userprofile-vip'' = Inr [] \<longrightarrow> seller_name (seller r) = None) \<and>
            (soup ''.userprofile-vip-details-text'' = Inr [] \<longrightarrow>
               seller_type (seller r) = u ''private'') \<and>
            (soup ''.userprofile-vip-details-text:has-text('Aktiv seit')'' = Inr [] \<longrightarrow>
               seller_since (seller r) = None) \<and>
            ((\<exists>e. soup ''.userprofile-vip-details-text:has-text('Aktiv seit')'' = Inl e) \<longrightarrow>
               seller_since (seller r) = None \<and> seller_badges (seller r) = []) \<and>
            (soup ''.userprofile-vip-badges .userbadge-tag'' = Inr [] \<longrightarrow>
               seller_badges (seller r) = [])"
    using seller_fields [OF sd] r by simp
  from 1 2 3 4 5 6 7 8 9 10 show ?thesis by blast
qed

lemma empty_soup_listing: "extract_listing empty_soup = Inr default_listing"
  apply (simp add: extract_listing_def bind_raised_def empty_soup_def
      get_element_content_def get_elements_content_def get_image_sources_def select_one_def
      get_seller_details_def fill_seller_details_def get_details_def get_features_def
      get_location_def get_extra_info_def default_listing_def title_of_def views_of_def
      clean_description_def shipping_of_def parse_price_def)
  apply (simp add: bullet_sep_def u_def py_strip_def py_isspace_def)
  done

text \<open>
  C8. The extraction of the seller details, of the details, of the features and of the
  extra information returns a value for every document, also when a selector makes the
  CSS engine raise. A selector that finds nothing yields the default of
  \<open>get_element_content\<close> and the empty list of \<open>get_elements_content\<close> and
  \<open>get_image_sources\<close>. For every document whose selectors outside the helpers' try
  blocks are answered by the CSS engine, with elements or with none, the whole extraction
  returns a record: no missing field makes it raise. In every record extracted, each field
  whose selector finds nothing holds its default: the placeholder of the identifier and
  of the title, the price \<open>0\<close>, the views \<open>0\<close>, no description, no delivery, no creation
  date, no seller name, no membership date, the seller type \<open>private\<close>, the empty
  location and the empty lists of categories, images, details, features and badges. The
  membership date and the badges are the defaults too when the selector of the
  membership date is refused.
\<close>

theorem missing_fields_give_defaults:
  "(\<exists>sd. get_seller_details soup = Inr sd) \<and> (\<exists>de. get_details soup = Inr de) \<and>
   (\<exists>f. get_features soup = Inr f) \<and> (\<exists>x. get_extra_info soup = Inr x) \<and>
   (soup selector = Inr [] \<longrightarrow>
      get_element_content soup selector dflt = Inr dflt \<and>
      get_elements_content soup selector = Inr [] \<and>
      get_image_sources soup selector = Inr []) \<and>
   ((\<forall>sel \<in> set direct_selectors. \<exists>ts. soup sel = Inr ts) \<longrightarrow>
      (\<exists>r. extract_listing soup = Inr r)) \<and>
   (extract_listing soup = Inr r \<longrightarrow>
      (soup ''#viewad-ad-id-box > ul > li:nth-child(2)'' = Inr [] \<longrightarrow>
         ad_id r = Some (u ''[ERROR] Ad ID not found'')) \<and>
      (soup ''.breadcrump-link'' = Inr [] \<longrightarrow> categories r = []) \<and>
      (soup ''#viewad-title'' = Inr [] \<longrightarrow> title r = u ''[ERROR] Title not found'') \<and>
      (soup ''#viewad-price'' = Inr [] \<longrightarrow>
         ad_price r = \<lparr>amount = u ''0'', currency = euro, negotiable = False\<rparr>) \<and>
      (soup ''#viewad-cntr-num'' = Inr [] \<longrightarrow>
         views r = u ''0'' \<and> extra_views (extra_info r) = u ''0'') \<and>
      (soup ''#viewad-description-text'' = Inr [] \<longrightarrow> description r = None) \<and>
      (soup ''#viewad-image'' = Inr [] \<longrightarrow> images r = []) \<and>
      (soup ''.boxedarticle--details--shipping'' = Inr [] \<longrightarrow> delivery r = None) \<and>
      (soup ''#viewad-locality'' = Inr [] \<longrightarrow>
         location r = \<lparr>loc_zip = [], loc_city = [], loc_state = []\<rparr>) \<and>
      (soup ''#viewad-details .addetailslist--detail'' = Inr [] \<longrightarrow> details r = []) \<and>
      (soup ''#viewad-configuration .checktaglist .checktag'' = Inr [] \<longrightarrow>
         features r = []) \<and>
      (soup ''#viewad-extra-info > div:nth-child(1) > span'' = Inr [] \<longrightarrow>
         created_at (extra_info r) = None) \<and>
      (soup ''.userprofile-vip'' = Inr [] \<longrightarrow> seller_name (seller r) = None) \<and>
      (soup ''.userprofile-vip-details-text'' = Inr [] \<longrightarrow>
         seller_type (seller r) = u ''private'') \<and>
      (soup ''.userprofile-vip-details-text:has-text('Aktiv seit')'' = Inr [] \<longrightarrow>
         seller_since (seller r) = None) \<and>
      ((\<exists>e. soup ''.userprofile-vip-details-text:has-text('Aktiv seit')'' = Inl e) \<longrightarrow>
         seller_since (seller r) = None \<and> seller_badges (seller r) = []) \<and>
      (soup ''.userprofile-vip-badges .userbadge-tag'' = Inr [] \<longrightarrow>
         seller_badges (seller r) = []))"
proof -
  have total: "(\<forall>sel \<in> set direct_selectors. \<exists>ts. soup sel = Inr ts) \<longrightarrow>
                 (\<exists>r. extract_listing soup = Inr r)"
    using extract_total [of soup] by blast
  from seller_total [of soup] details_total [of soup] features_total [of soup]
    extra_info_total [of soup] nothing_found [of soup selector dflt] total
    listing_field_defaults [of soup r]
  show ?thesis by blast
qed

theorem missing_fields_give_defaults_witness:
  "list_all (\<lambda>sel. empty_soup sel = Inr []) direct_selectors \<and>
   (\<exists>e. empty_soup ''.userprofile-vip-details-text:has-text('Aktiv seit')'' = Inl e) \<and>
   extract_listing empty_soup = Inr default_listing \<and>
   ad_id default_listing = Some (u ''[ERROR] Ad ID not found'') \<and>
   seller default_listing =
     \<lparr>seller_name = None, seller_since = None, seller_type = u ''private'',
      seller_badges = []\<rparr> \<and>
   get_element_content empty_soup ''#viewad-price'' None = Inr None"
  using missing_fields_give_defaults
          [of empty_soup "''#viewad-price''" None default_listing]
        empty_soup_listing
  by (simp add: empty_soup_def direct_selectors_def default_listing_def)

section \<open>Images\<close>

lemma image_sources_short: "get_image_sources soup selector = Inr imgs \<Longrightarrow> length imgs \<le> 1"
  by (auto simp: get_image_sources_def split: sum.splits option.splits)

lemma listing_images_short:
  "get_inserate_details_httpx fetched = Inr r \<Longrightarrow> length (images r) \<le> 1"
  unfolding get_inserate_details_httpx_def extract_listing_def bind_raised_def
  by (auto split: sum.splits raised.splits dest: image_sources_short)

lemma gallery_images:
  "get_image_sources gallery_soup ''#viewad-image'' = Inr [u ''a.jpg'']"
  by (simp add: get_image_sources_def select_one_def gallery_soup_def)

text \<open>
  C10. \<open>get_image_sources\<close> returns at most one URL, whatever the document and the
  selector, and so the images of a record extracted by \<open>get_inserate_details_httpx\<close>
  are at most one URL: only the first element the selector matches is read.
\<close>

theorem images_at_most_one:
  "(\<forall>imgs. get_image_sources soup selector = Inr imgs \<longrightarrow> length imgs \<le> 1) \<and>
   (\<forall>r. get_inserate_details_httpx fetched = Inr r \<longrightarrow> length (images r) \<le> 1)"
  using image_sources_short listing_images_short by blast

theorem images_at_most_one_witness:
  "get_image_sources gallery_soup ''#viewad-image'' = Inr [u ''a.jpg''] \<and>
   length [u ''a.jpg''] \<le> (1::nat)"
  using images_at_most_one [of gallery_soup "''#viewad-image''"] gallery_images
  by simp

section \<open>The endpoint\<close>

text \<open>
  C9. A request whose \<open>id\<close> is empty or consists of whitespace only is answered with
  the HTTP exception 400 \<open>Invalid listing ID\<close>, and \<open>get_inserate_details_optimized\<close>
  is not called, whatever the fetches would give.
\<close>

theorem blank_id_is_rejected:
  "id' = [] \<or> (\<forall>c \<in> set id'. py_isspace c) \<Longrightarrow>
   get_inserat E id' = (Inl (HTTPException 400 (DetailText (u ''Invalid listing ID''))), [])"
  by (auto simp: get_inserat_def strip_blank)

theorem blank_id_is_rejected_witness:
  "get_inserat unavailable_env [32, 9, 32] =
     (Inl (HTTPException 400 (DetailText (u ''Invalid listing ID''))), [])"
  using blank_id_is_rejected [of "[32, 9, 32]" unavailable_env]
  by (simp add: py_isspace_def)

section \<open>The retry function\<close>

lemma range_first:
  "0 \<le> retry_count \<Longrightarrow> [0..<nat (retry_count + 1)] = 0 # [1..<nat (retry_count + 1)]"
  by (simp add: upt_conv_Cons)

lemma retry_branch_raises:
  assumes "get_inserate_details_httpx (fetch E attempt) = Inl e"
    and "int attempt < retry_count"
    and "should_retry E (handle_exception E attempt e) retry_count"
  shows "attempt_loop E listing_id retry_count (attempt # rest) s =
           (Raised no_attribute_trandom,
            s\<lparr>attempts_made := attempts_made s @ [attempt],
              last_structured_error := Some (handle_exception E attempt e),
              warning_manager :=
                retry_warning listing_id (handle_exception E attempt e) attempt retry_count
                  (warning_manager s)\<rparr>)"
  using assms by (simp add: Let_def asyncio_trandom_uniform_def no_attribute_trandom_def)

lemma final_failure_returns:
  assumes "get_inserate_details_httpx (fetch E attempt) = Inl e"
    and "\<not> (int attempt < retry_count \<and>
             should_retry E (handle_exception E attempt e) retry_count)"
  shows "\<exists>s'. attempt_loop E listing_id retry_count (attempt # rest) s =
                 (Returned (failure_response (handle_exception E attempt e) s'), s') \<and>
               attempts_made s' = attempts_made s @ [attempt] \<and>
               warning_manager s' = warning_manager s \<and> sleeps s' = sleeps s \<and>
               length (tracker s') = Suc (length (tracker s)) \<and>
               \<not> pm_success (last (tracker s'))"
  using assms by (auto simp: Let_def)

lemma loop_one_attempt:
  "attempts_made (snd (attempt_loop E listing_id retry_count (attempt # rest) s)) =
     attempts_made s @ [attempt]"
  by (simp add: Let_def asyncio_trandom_uniform_def split: sum.splits)

lemma loop_never_sleeps:
  "sleeps (snd (attempt_loop E listing_id retry_count todo s)) = sleeps s"
  by (cases todo) (simp_all add: Let_def asyncio_trandom_uniform_def split: sum.splits)

lemma loop_warnings_extend:
  "\<exists>ws. warning_manager (snd (attempt_loop E listing_id retry_count todo s)) =
          warning_manager s @ ws"
  by (cases todo)
     (simp_all add: Let_def asyncio_trandom_uniform_def incomplete_warning_def
        retry_warning_def add_warning_def split: sum.splits)

lemma snd_optimized:
  "snd (get_inserate_details_optimized E listing_id retry_count) =
     snd (attempt_loop E listing_id retry_count [0..<nat (retry_count + 1)] initial_state)"
  by (simp add: get_inserate_details_optimized_def
        split: prod.splits loop_exit.splits option.splits)

lemma attempts_exactly_one:
  "0 \<le> retry_count \<Longrightarrow>
   attempts_made (snd (get_inserate_details_optimized E listing_id retry_count)) = [0]"
  by (simp only: snd_optimized range_first loop_one_attempt) (simp add: initial_state_def)

lemma attempts_at_most:
  "length (attempts_made (snd (get_inserate_details_optimized E listing_id retry_count)))
     \<le> nat (retry_count + 1)"
proof (cases "0 \<le> retry_count")
  case True
  then show ?thesis by (simp add: attempts_exactly_one)
next
  case False
  then show ?thesis by (simp add: snd_optimized initial_state_def)
qed

lemma warnings_only_grow:
  "\<exists>ws. warning_manager (snd (get_inserate_details_optimized E listing_id retry_count)) =
          warning_manager initial_state @ ws"
  by (simp only: snd_optimized loop_warnings_extend)

lemma response_fields:
  "success (with_warnings b ws r) = success r \<and> data (with_warnings b ws r) = data r \<and>
   error (with_warnings b ws r) = error r \<and>
   error_category (with_warnings b ws r) = error_category r \<and>
   error_severity (with_warnings b ws r) = error_severity r \<and>
   recovery_suggestions (with_warnings b ws r) = recovery_suggestions r \<and>
   performance_metrics (with_warnings b ws r) = performance_metrics r"
  by (simp add: with_warnings_def)

lemma response_warnings:
  "ws \<noteq> [] \<Longrightarrow>
   warnings (with_warnings b ws r) = Some (map w_message ws) \<and>
   detailed_warnings (with_warnings b ws r) = Some ws"
  by (simp add: with_warnings_def get_user_friendly_messages_def)


lemma optimized_retry_raises:
  assumes "get_inserate_details_httpx (fetch E 0) = Inl e"
    and "0 < retry_count"
    and "should_retry E (handle_exception E 0 e) retry_count"
  shows "get_inserate_details_optimized E listing_id retry_count =
           (leave_context E no_attribute_trandom,
            initial_state\<lparr>attempts_made := [0],
              last_structured_error := Some (handle_exception E 0 e),
              warning_manager :=
                retry_warning listing_id (handle_exception E 0 e) 0 retry_count []\<rparr>)"
proof -
  from assms(2) have r: "[0..<nat (retry_count + 1)] = 0 # [1..<nat (retry_count + 1)]"
    by (simp add: range_first)
  from assms(2) have lt: "int 0 < retry_count" by simp
  show ?thesis
    unfolding get_inserate_details_optimized_def r
      retry_branch_raises [OF assms(1) lt assms(3)]
    by (simp add: initial_state_def)
qed

lemma unavailable_fetch:
  "get_inserate_details_httpx (fetch unavailable_env attempt) = Inl unavailable_503"
  by (simp add: unavailable_env_def get_inserate_details_httpx_def bind_raised_def
        unavailable_503_def)

lemma unavailable_fetch_any_exit:
  "get_inserate_details_httpx (fetch (unavailable_env\<lparr>context_exit := cx\<rparr>) attempt) =
     Inl unavailable_503"
  using unavailable_fetch [of attempt] by (simp add: unavailable_env_def)

lemma recovering_fetch:
  "get_inserate_details_httpx (fetch recovering_env 0) = Inl unavailable_503 \<and>
   get_inserate_details_httpx (fetch recovering_env 1) = Inr default_listing"
  by (simp add: recovering_env_def get_inserate_details_httpx_def bind_raised_def
        unavailable_503_def empty_soup_listing)

lemma malformed_fetch:
  "get_inserate_details_httpx (fetch malformed_env attempt) =
     Inl (HTTPException 500 (DetailText (u ''malformed document'')))"
  by (simp add: malformed_env_def get_inserate_details_httpx_def bind_raised_def)

lemma no_id_fetch:
  "get_inserate_details_httpx (fetch no_id_env attempt) =
     Inr (default_listing\<lparr>ad_id := Some []\<rparr>)"
  apply (simp add: no_id_env_def get_inserate_details_httpx_def bind_raised_def
      extract_listing_def no_id_soup_def empty_soup_def get_element_content_def get_elements_content_def
      get_image_sources_def select_one_def get_seller_details_def fill_seller_details_def
      get_details_def get_features_def get_location_def get_extra_info_def
      default_listing_def title_of_def views_of_def clean_description_def shipping_of_def
      parse_price_def)
  apply (simp add: bullet_sep_def u_def py_strip_def py_isspace_def)
  done

text \<open>
  C3. When the failure of attempt 0 is classified as not retryable (\<open>should_retry\<close> is
  false for its structured error), the call makes exactly one attempt, whatever
  \<open>retry_count \<ge> 0\<close> is, and returns a failure response built from that structured
  error: success false, no data, and its message, category, severity and recovery
  suggestions.
\<close>

theorem non_retryable_failure_single_attempt:
  assumes "0 \<le> retry_count"
    and "get_inserate_details_httpx (fetch E 0) = Inl e"
    and "\<not> should_retry E (handle_exception E 0 e) retry_count"
  shows "\<exists>r s. get_inserate_details_optimized E listing_id retry_count = (Return r, s) \<and>
           attempts_made s = [0] \<and> sleeps s = [] \<and>
           \<not> success r \<and> data r = None \<and>
           error r = Some (se_message (handle_exception E 0 e)) \<and>
           error_category r = Some (se_category_value (handle_exception E 0 e)) \<and>
           error_severity r = Some (se_severity_value (handle_exception E 0 e)) \<and>
           recovery_suggestions r =
             Some (se_recovery_suggestions (handle_exception E 0 e))"
proof -
  from assms(1) have r: "[0..<nat (retry_count + 1)] = 0 # [1..<nat (retry_count + 1)]"
    by (rule range_first)
  from assms(3)
  have stop: "\<not> (int 0 < retry_count \<and> should_retry E (handle_exception E 0 e) retry_count)"
    by simp
  from final_failure_returns [OF assms(2) stop]
  obtain s' where
    loop: "attempt_loop E listing_id retry_count (0 # [1..<nat (retry_count + 1)])
             initial_state =
           (Returned (failure_response (handle_exception E 0 e) s'), s')"
    and made: "attempts_made s' = attempts_made initial_state @ [0]"
    and slept: "sleeps s' = sleeps initial_state"
    by blast
  have "get_inserate_details_optimized E listing_id retry_count =
          (Return (failure_response (handle_exception E 0 e) s'), s')"
    unfolding get_inserate_details_optimized_def r loop by simp
  with made slept show ?thesis
    by (simp add: initial_state_def failure_response_def response_fields)
qed

theorem non_retryable_failure_single_attempt_witness:
  "\<exists>r s. get_inserate_details_optimized malformed_env (u ''123'') 5 = (Return r, s) \<and>
     attempts_made s = [0] \<and> \<not> success r \<and> data r = None \<and>
     error r = Some (u ''malformed document'') \<and> error_category r = Some (u ''parsing'')"
  using non_retryable_failure_single_attempt
          [of 5 malformed_env "HTTPException 500 (DetailText (u ''malformed document''))"
              "u ''123''"]
        malformed_fetch [of 0]
  by (auto simp: malformed_env_def parsing_failure_def)

text \<open>
  When the fetch and the extraction of an attempt complete and the identifier of the
  record is \<open>None\<close> or the empty string, the attempt appends one warning of severity
  MEDIUM, \<open>Incomplete data extracted for listing\<close> followed by the listing identifier,
  records a page metric with success true and returns a success response: success
  true, the record as data, and the warnings of the call, the new one last.
\<close>

lemma falsy_id_is_warned:
  assumes "get_inserate_details_httpx (fetch E attempt) = Inr record'"
    and "\<not> truthy (ad_id record')"
  shows "\<exists>r s' w. attempt_loop E listing_id retry_count (attempt # rest) s = (Returned r, s') \<and>
           warning_manager s' = warning_manager s @ [w] \<and> w_severity w = MEDIUM \<and>
           w_message w = u ''Incomplete data extracted for listing '' @ listing_id \<and>
           success r \<and> data r = Some record' \<and>
           detailed_warnings r = Some (warning_manager s') \<and>
           length (tracker s') = Suc (length (tracker s)) \<and>
           pm_success (last (tracker s')) \<and> pm_retry_count (last (tracker s')) = attempt"
  using assms
  by (simp add: Let_def success_response_def response_fields response_warnings
        incomplete_warning_def add_warning_def)

lemma falsy_id_is_warned_example:
  "\<exists>r s' w. attempt_loop no_id_env (u ''123'') 2 [0, 1, 2] initial_state = (Returned r, s') \<and>
     warning_manager s' = [w] \<and> w_severity w = MEDIUM \<and>
     success r \<and> data r = Some (default_listing\<lparr>ad_id := Some []\<rparr>) \<and>
     detailed_warnings r = Some [w] \<and> pm_success (last (tracker s'))"
  using falsy_id_is_warned
          [of no_id_env 0 "default_listing\<lparr>ad_id := Some []\<rparr>" "u ''123''" 2 "[1, 2]"
              initial_state]
        no_id_fetch [of 0]
  by (auto simp: truthy_def initial_state_def)

lemma incomplete_record_call:
  assumes "0 \<le> retry_count"
    and "get_inserate_details_httpx (fetch E 0) = Inr record'"
    and "\<not> truthy (ad_id record')"
  shows "\<exists>r s. get_inserate_details_optimized E listing_id retry_count = (Return r, s) \<and>
           success r \<and> data r = Some record' \<and>
           map w_severity (warning_manager s) = [MEDIUM] \<and>
           detailed_warnings r = Some (warning_manager s)"
proof -
  from assms(1) have r: "[0..<nat (retry_count + 1)] = 0 # [1..<nat (retry_count + 1)]"
    by (rule range_first)
  show ?thesis
    unfolding get_inserate_details_optimized_def r
    using assms(2,3)
    by (simp add: Let_def success_response_def response_fields response_warnings
          incomplete_warning_def add_warning_def initial_state_def)
qed

lemma placeholder_id_is_truthy:
  assumes "get_inserate_details_httpx (Inr soup) = Inr r"
    and "soup ''#viewad-ad-id-box > ul > li:nth-child(2)'' = Inr []"
  shows "ad_id r = Some (u ''[ERROR] Ad ID not found'') \<and> truthy (ad_id r)"
proof -
  from assms(1) have "extract_listing soup = Inr r"
    by (simp add: get_inserate_details_httpx_def bind_raised_def
          split: sum.splits raised.splits)
  from listing_field_defaults [OF this] assms(2)
  have "ad_id r = Some (u ''[ERROR] Ad ID not found'')" by blast
  then show ?thesis by (simp add: truthy_def u_def)
qed

lemma empty_page_fetch:
  "get_inserate_details_httpx (fetch empty_page_env attempt) = Inr default_listing"
  by (simp add: empty_page_env_def get_inserate_details_httpx_def bind_raised_def
        empty_soup_listing)

text \<open>
  C6, at the call with \<open>retry_count = 2\<close> whose fetch gives a document without the
  identifier element (no selector finds anything): the extraction completes, the
  identifier of the record is the placeholder \<open>[ERROR] Ad ID not found\<close>, which is a
  non-empty string, and the test \<open>not details.get("id")\<close> is false. The call returns the
  success response with the record and no warning at all: no warning strings, no
  detailed warnings, no summary.
\<close>

theorem missing_id_element_gives_no_warning:
  "\<exists>r s. get_inserate_details_optimized empty_page_env (u ''123'') 2 = (Return r, s) \<and>
     empty_soup ''#viewad-ad-id-box > ul > li:nth-child(2)'' = Inr [] \<and>
     success r \<and> data r = Some default_listing \<and>
     ad_id default_listing = Some (u ''[ERROR] Ad ID not found'') \<and>
     warning_manager s = [] \<and> warnings r = None \<and> detailed_warnings r = None \<and>
     warning_summary r = None"
proof -
  have r: "[0..<nat (2 + 1)] = 0 # [1..<nat (2 + 1)]" by (rule range_first) simp
  have t: "truthy (ad_id default_listing)"
    by (simp add: default_listing_def truthy_def u_def)
  have "\<exists>r s. get_inserate_details_optimized empty_page_env (u ''123'') 2 = (Return r, s) \<and>
          success r \<and> data r = Some default_listing \<and> warning_manager s = [] \<and>
          warnings r = None \<and> detailed_warnings r = None \<and> warning_summary r = None"
    unfolding get_inserate_details_optimized_def r
    by (simp add: empty_page_fetch t Let_def success_response_def with_warnings_def
          initial_state_def)
  then show ?thesis by (simp add: empty_soup_def default_listing_def)
qed

text \<open>
  C1, at the call with \<open>retry_count = 2\<close> whose first fetch answers 503, classified as
  retryable: the failure is turned into a structured error and the retry warning is
  appended, then the lookup of \<open>asyncio.trandom\<close> raises inside the handler. Whatever
  the context manager does with that exception, the caller gets no response: the
  exception, or \<open>None\<close>.
\<close>

theorem retryable_failure_gives_no_response:
  "(\<forall>cx r. fst (get_inserate_details_optimized (unavailable_env\<lparr>context_exit := cx\<rparr>)
               (u ''123'') 2) \<noteq> Return r) \<and>
   last_structured_error (snd (get_inserate_details_optimized unavailable_env (u ''123'') 2)) =
     Some service_unavailable"
proof -
  have s: "should_retry (unavailable_env\<lparr>context_exit := cx\<rparr>)
             (handle_exception (unavailable_env\<lparr>context_exit := cx\<rparr>) 0 unavailable_503) 2"
    for cx by (simp add: unavailable_env_def)
  have s0: "should_retry unavailable_env (handle_exception unavailable_env 0 unavailable_503) 2"
    by (simp add: unavailable_env_def)
  have h: "handle_exception unavailable_env 0 unavailable_503 = service_unavailable"
    by (simp add: unavailable_env_def)
  have none: "fst (get_inserate_details_optimized (unavailable_env\<lparr>context_exit := cx\<rparr>)
                 (u ''123'') 2) \<noteq> Return r" for cx r
    by (simp add: optimized_retry_raises [OF unavailable_fetch_any_exit _ s]
          leave_context_def split: option.splits)
  have last: "last_structured_error
                (snd (get_inserate_details_optimized unavailable_env (u ''123'') 2)) =
              Some service_unavailable"
    by (simp add: optimized_retry_raises [OF unavailable_fetch _ s0] h)
  from none last show ?thesis by blast
qed

text \<open>
  C2, at the same call: the loop ends after the one attempt 0 with the
  \<open>AttributeError\<close> of \<open>asyncio.trandom\<close>; no response is produced and no page metric
  is recorded for the attempt.
\<close>

theorem retry_ends_call_without_response:
  "fst (get_inserate_details_optimized unavailable_env (u ''123'') 2) =
     Raise no_attribute_trandom \<and>
   attempts_made (snd (get_inserate_details_optimized unavailable_env (u ''123'') 2)) = [0] \<and>
   tracker (snd (get_inserate_details_optimized unavailable_env (u ''123'') 2)) = []"
proof -
  have s: "should_retry unavailable_env (handle_exception unavailable_env 0 unavailable_503) 2"
    by (simp add: unavailable_env_def)
  have c: "context_exit unavailable_env = Some" by (simp add: unavailable_env_def)
  show ?thesis
    by (simp add: optimized_retry_raises [OF unavailable_fetch _ s] leave_context_def c
          initial_state_def)
qed

text \<open>
  C4: no call ever sleeps. At the call with \<open>retry_count = 3\<close> whose fetches answer 503,
  classified as retryable, the failure of attempt 0 is due a retry, and the call ends
  with the \<open>AttributeError\<close> of \<open>asyncio.trandom\<close> before any wait time is computed.
\<close>

theorem no_backoff_wait_is_made:
  "sleeps (snd (get_inserate_details_optimized E listing_id retry_count)) = [] \<and>
   fst (get_inserate_details_optimized unavailable_env (u ''456'') 3) =
     Raise no_attribute_trandom \<and>
   sleeps (snd (get_inserate_details_optimized unavailable_env (u ''456'') 3)) = []"
proof -
  have s: "should_retry unavailable_env (handle_exception unavailable_env 0 unavailable_503) 3"
    by (simp add: unavailable_env_def)
  have c: "context_exit unavailable_env = Some" by (simp add: unavailable_env_def)
  have "sleeps (snd (get_inserate_details_optimized E listing_id retry_count)) = []"
    by (simp only: snd_optimized loop_never_sleeps) (simp add: initial_state_def)
  then show ?thesis
    by (simp add: optimized_retry_raises [OF unavailable_fetch _ s] leave_context_def c
          initial_state_def)
qed

text \<open>
  At the call with \<open>retry_count = 2\<close> whose first fetch answers 503, classified as
  retryable, and whose later fetches give a document, the retry warning of attempt 0 is
  appended and the call ends there with the \<open>AttributeError\<close> of \<open>asyncio.trandom\<close>:
  attempt 1 is not made.
\<close>

lemma retry_warning_ends_call:
  "fst (get_inserate_details_optimized recovering_env (u ''123'') 2) =
     Raise no_attribute_trandom \<and>
   attempts_made (snd (get_inserate_details_optimized recovering_env (u ''123'') 2)) = [0] \<and>
   map w_severity
     (warning_manager (snd (get_inserate_details_optimized recovering_env (u ''123'') 2))) =
     [MEDIUM] \<and>
   get_inserate_details_httpx (fetch recovering_env 1) = Inr default_listing"
proof -
  have f: "get_inserate_details_httpx (fetch recovering_env 0) = Inl unavailable_503"
    by (simp add: recovering_fetch)
  have s: "should_retry recovering_env (handle_exception recovering_env 0 unavailable_503) 2"
    by (simp add: recovering_env_def)
  have c: "context_exit recovering_env = Some" by (simp add: recovering_env_def)
  have g: "get_inserate_details_httpx (fetch recovering_env 1) = Inr default_listing"
    using recovering_fetch by blast
  have "fst (get_inserate_details_optimized recovering_env (u ''123'') 2) =
          Raise no_attribute_trandom \<and>
        attempts_made (snd (get_inserate_details_optimized recovering_env (u ''123'') 2)) =
          [0] \<and>
        map w_severity
          (warning_manager (snd (get_inserate_details_optimized recovering_env (u ''123'') 2))) =
          [MEDIUM]"
    by (simp add: optimized_retry_raises [OF f _ s] leave_context_def c initial_state_def
          retry_warning_def add_warning_def)
  with g show ?thesis by blast
qed

lemma after_retry_state_is_reached:
  "snd (get_inserate_details_optimized recovering_env (u ''123'') 2) = after_retry_state"
proof -
  have f: "get_inserate_details_httpx (fetch recovering_env 0) = Inl unavailable_503"
    by (simp add: recovering_fetch)
  have s: "should_retry recovering_env (handle_exception recovering_env 0 unavailable_503) 2"
    by (simp add: recovering_env_def)
  have h: "handle_exception recovering_env 0 unavailable_503 = service_unavailable"
    by (simp add: recovering_env_def)
  show ?thesis
    by (simp add: optimized_retry_raises [OF f _ s] h after_retry_state_def initial_state_def)
qed





end
